theory Spec2Isabelle
  imports Complex_Main "HOL-Library.Multiset" "HOL-Library.Sublist"
begin

section \<open>JavaScript numbers and strings\<close>

text \<open>
  The frontend is TypeScript; every numeric field is a JavaScript \<^verbatim>\<open>number\<close> that arrives
  as JSON, hence a finite double. A finite double is a rational number, and comparison,
  \<^verbatim>\<open>Math.floor\<close> and the remainder operator \<^verbatim>\<open>%\<close> are exact on doubles, so a
  \<^verbatim>\<open>number\<close> is modelled by its exact value in \<^typ>\<open>rat\<close>. Division by the constant 60 is
  taken exactly (a double quotient rounds, which does not move its floor for the
  magnitudes a flight time can take).
\<close>

type_synonym number = rat

definition Math_floor :: "number \<Rightarrow> int" where
  "Math_floor x = \<lfloor>x\<rfloor>"

definition js_trunc :: "number \<Rightarrow> int" where
  "js_trunc x = (if 0 \<le> x then \<lfloor>x\<rfloor> else \<lceil>x\<rceil>)"

text \<open>\<^verbatim>\<open>x % y\<close> for a divisor \<open>y \<noteq> 0\<close>: the remainder of the truncated division, which takes
  the sign of the dividend.\<close>

definition js_rem :: "number \<Rightarrow> number \<Rightarrow> number" where
  "js_rem x y = x - y * of_int (js_trunc (x / y))"

definition digit_char :: "nat \<Rightarrow> char" where
  "digit_char d = ''0123456789'' ! d"

fun digits_of :: "nat \<Rightarrow> string" where
  "digits_of n =
     (if n < 10 then [digit_char n] else digits_of (n div 10) @ [digit_char (n mod 10)])"

definition int_to_string :: "int \<Rightarrow> string" where
  "int_to_string i = (if i < 0 then CHR ''-'' # digits_of (nat (- i)) else digits_of (nat i))"

fun frac_digits :: "nat \<Rightarrow> rat \<Rightarrow> string" where
  "frac_digits 0 f = []"
| "frac_digits (Suc k) f =
     (if f = 0 then []
      else digit_char (nat \<lfloor>f * 10\<rfloor>) # frac_digits k (f * 10 - of_int \<lfloor>f * 10\<rfloor>))"

text \<open>
  \<^verbatim>\<open>Number.prototype.toString\<close> (also what a template literal applies). On an integer
  it is the decimal numeral, with a minus sign below zero. On a non-integer it is the
  integer part, a dot and the fraction digits; the model writes the digits of the exact
  value, at most 17 of them, which is what JavaScript prints for a value with a short
  terminating expansion such as 30.5.
\<close>

definition number_to_string :: "number \<Rightarrow> string" where
  "number_to_string x =
     (if of_int \<lfloor>x\<rfloor> = x then int_to_string \<lfloor>x\<rfloor>
      else (if x < 0 then ''-'' else '''') @ digits_of (nat \<lfloor>\<bar>x\<bar>\<rfloor>) @ ''.''
           @ frac_digits 17 (\<bar>x\<bar> - of_int \<lfloor>\<bar>x\<bar>\<rfloor>))"

text \<open>\<^verbatim>\<open>s.padStart(n, c)\<close> with a one-character filler.\<close>

definition padStart :: "nat \<Rightarrow> char \<Rightarrow> string \<Rightarrow> string" where
  "padStart n c s = replicate (n - length s) c @ s"

section \<open>The three time formatters\<close>

text \<open>\<^verbatim>\<open>formatTime\<close> of \<^verbatim>\<open>components/EventsTimeline.tsx\<close>.\<close>

definition EventsTimeline_formatTime :: "number \<Rightarrow> string" where
  "EventsTimeline_formatTime seconds =
     (let mins = Math_floor (seconds / 60);
          secs = Math_floor (js_rem seconds 60)
      in int_to_string mins @ '':'' @ padStart 2 CHR ''0'' (int_to_string secs))"

text \<open>\<^verbatim>\<open>formatTime\<close> of the SignalStrip component, a textual copy of the one above.\<close>

definition SignalStrip_formatTime :: "number \<Rightarrow> string" where
  "SignalStrip_formatTime seconds =
     (let mins = Math_floor (seconds / 60);
          secs = Math_floor (js_rem seconds 60)
      in int_to_string mins @ '':'' @ padStart 2 CHR ''0'' (int_to_string secs))"

text \<open>\<^verbatim>\<open>formatter\<close> of \<^verbatim>\<open>components/FlightChart.tsx\<close>: the remainder is not floored.\<close>

definition FlightChart_formatter :: "number \<Rightarrow> string" where
  "FlightChart_formatter tick =
     (let minutes = Math_floor (tick / 60);
          seconds = js_rem tick 60
      in int_to_string minutes @ '':'' @ padStart 2 CHR ''0'' (number_to_string seconds))"

text \<open>The format as the specification words it: minutes, a colon, and the seconds
  \<open>t mod 60\<close> padded with a zero to two digits.\<close>

definition spec_time_string :: "nat \<Rightarrow> string" where
  "spec_time_string t =
     digits_of (t div 60) @ '':'' @
     (if t mod 60 < 10 then CHR ''0'' # digits_of (t mod 60) else digits_of (t mod 60))"

section \<open>The data model of \<^verbatim>\<open>types/index.ts\<close>\<close>

text \<open>Field names carry a prefix per interface, since several interfaces share
  \<^verbatim>\<open>time_seconds\<close> and \<^verbatim>\<open>severity\<close>. An optional field is an \<open>option\<close>.\<close>

datatype severity = Info | Warning | Critical

record flight_summary =
  fs_total_duration_seconds :: number
  fs_total_duration_minutes :: number
  fs_max_altitude_ft :: "number option"
  fs_min_altitude_ft :: "number option"
  fs_avg_altitude_ft :: "number option"
  fs_max_airspeed_kt :: "number option"
  fs_avg_airspeed_kt :: "number option"
  fs_max_climb_rate_fpm :: "number option"
  fs_max_descent_rate_fpm :: "number option"
  fs_max_bank_angle_deg :: "number option"
  fs_max_positive_g :: "number option"
  fs_max_negative_g :: "number option"
  fs_fuel_consumed_gal :: "number option"

record flight_event =
  fe_type :: string
  fe_time_seconds :: number
  fe_severity :: severity
  fe_description :: string
  fe_attached :: "(string \<times> number) list"

record rule_event =
  re_rule :: string
  re_severity :: severity
  re_time_seconds :: number
  re_description :: string
  re_values :: "(string \<times> (number + string)) list"

record reference_snippet =
  rs_event_type :: string
  rs_title :: string
  rs_url :: string
  rs_snippet :: string
  rs_domain :: "string option"

record series_point =
  sp_time_seconds :: number
  sp_alt_msl_ft :: "number option"
  sp_airspeed_indicated_kt :: "number option"
  sp_vertical_speed_fpm :: "number option"
  sp_roll_deg :: "number option"
  sp_pitch_deg :: "number option"

datatype axis = AxisLeft | AxisRight | AxisBand

record signal_meta =
  sm_key :: string
  sm_label :: string
  sm_unit :: string
  sm_axis :: axis

text \<open>\<^verbatim>\<open>SignalMatrixPoint\<close> has an index signature: besides \<^verbatim>\<open>time_seconds\<close> it holds
  any number of named signals, each present or not.\<close>

record signal_matrix_point =
  smp_time_seconds :: number
  smp_signals :: "(string \<times> number) list"

record risk_point =
  rp_time_seconds :: number
  rp_hf_index :: number

record preset_window =
  pw_id :: string
  pw_label :: string
  pw_window :: "number \<times> number"

record events_count =
  ec_total :: number
  ec_critical :: number
  ec_warning :: number
  ec_info :: number

text \<open>\<^verbatim>\<open>presets\<close> is declared required, yet \<^verbatim>\<open>App\<close> guards against its absence
  (\<^verbatim>\<open>result.presets && ...\<close>, \<^verbatim>\<open>result.presets?.[0]\<close>), so the field is optional here.\<close>

record analysis_response =
  ar_success :: bool
  ar_filename :: string
  ar_metadata :: "(string \<times> string) list option"
  ar_summary :: flight_summary
  ar_events :: "flight_event list"
  ar_events_count :: events_count
  ar_references :: "reference_snippet list"
  ar_debrief :: string
  ar_series_data :: "series_point list"
  ar_signal_meta :: "signal_meta list"
  ar_signal_matrix :: "signal_matrix_point list"
  ar_risk_trace :: "risk_point list"
  ar_rule_events :: "rule_event list"
  ar_presets :: "preset_window list option"

record ai_agent_request =
  rq_command :: string
  rq_window_start :: "number option"
  rq_window_end :: "number option"
  rq_summary :: flight_summary
  rq_rule_events :: "rule_event list"
  rq_context_notes :: "string option"

section \<open>Severity-keyed presentation tables\<close>

text \<open>A severity is one of three string literals at run time; the tables are object
  literals looked up by that string. An icon is written as its Unicode code points.\<close>

fun severity_key :: "severity \<Rightarrow> string" where
  "severity_key Info = ''info''"
| "severity_key Warning = ''warning''"
| "severity_key Critical = ''critical''"

text \<open>\<^verbatim>\<open>severityIcon\<close> of the RulePanel component.\<close>

definition severityIcon :: "(string \<times> nat list) list" where
  "severityIcon =
     [(''critical'', [0x1F534]), (''warning'', [0x1F7E0]), (''info'', [0x1F535])]"

text \<open>\<^verbatim>\<open>severityToHue\<close> of \<^verbatim>\<open>components/EventsTimeline.tsx\<close>.\<close>

definition severityToHue :: "(string \<times> string) list" where
  "severityToHue =
     [(''critical'', ''#ff6b6b''), (''warning'', ''#ffc857''), (''info'', ''#5cc8ff'')]"

section \<open>\<^verbatim>\<open>FlightChart\<close>\<close>

datatype chart_element =
    CartesianGrid
  | XAxis string
  | YAxis string
  | Tooltip
  | Legend
  | Line string string
  | ReferenceLine number string

text \<open>\<^verbatim>\<open>s.replace('_', ' ')\<close> with a string pattern replaces the first occurrence only.\<close>

fun replace_first_underscore :: "string \<Rightarrow> string" where
  "replace_first_underscore [] = []"
| "replace_first_underscore (c # cs) =
     (if c = CHR ''_'' then CHR '' '' # cs else c # replace_first_underscore cs)"

text \<open>The component returns \<^verbatim>\<open>null\<close> on an empty series (\<open>None\<close>), and otherwise the
  children of its \<^verbatim>\<open>LineChart\<close> in source order. A \<^verbatim>\<open>Line\<close> is written with its axis
  and its data key.\<close>

fun FlightChart :: "series_point list \<Rightarrow> flight_event list \<Rightarrow> chart_element list option" where
  "FlightChart [] events = None"
| "FlightChart (d0 # rest) events =
     (let criticalMarkers = filter (\<lambda>event. fe_severity event = Critical) events
      in Some ([CartesianGrid, XAxis ''time_seconds'', YAxis ''left'', YAxis ''right'',
                Tooltip, Legend]
               @ (if sp_alt_msl_ft d0 \<noteq> None then [Line ''left'' ''alt_msl_ft''] else [])
               @ (if sp_airspeed_indicated_kt d0 \<noteq> None
                  then [Line ''right'' ''airspeed_indicated_kt''] else [])
               @ map (\<lambda>event. ReferenceLine (fe_time_seconds event)
                                  (replace_first_underscore (fe_type event)))
                     criticalMarkers))"

section \<open>\<^verbatim>\<open>App\<close>: the preset windows\<close>

text \<open>\<^verbatim>\<open>xs.at(-1)\<close>: the last element, \<^verbatim>\<open>undefined\<close> on an empty array.\<close>

fun at_last :: "'a list \<Rightarrow> 'a option" where
  "at_last [] = None"
| "at_last (x # xs) = (case at_last xs of None \<Rightarrow> Some x | Some y \<Rightarrow> Some y)"

text \<open>\<^verbatim>\<open>result.signal_matrix.at(-1)?.time_seconds ?? result.series_data.at(-1)?.time_seconds ?? 0\<close>\<close>

definition duration :: "analysis_response \<Rightarrow> number" where
  "duration result =
     (case at_last (ar_signal_matrix result) of
        Some p \<Rightarrow> smp_time_seconds p
      | None \<Rightarrow>
          (case at_last (ar_series_data result) of
             Some q \<Rightarrow> sp_time_seconds q
           | None \<Rightarrow> 0))"

text \<open>The \<^verbatim>\<open>presets\<close> memo of \<^verbatim>\<open>App\<close>; its argument is the hook's \<^verbatim>\<open>result\<close>, \<open>None\<close>
  while there is none.\<close>

definition presets :: "analysis_response option \<Rightarrow> preset_window list" where
  "presets result =
     (case result of
        None \<Rightarrow> []
      | Some r \<Rightarrow>
          (case ar_presets r of
             Some ps \<Rightarrow>
               if 0 < length ps then ps
               else [\<lparr>pw_id = ''full'', pw_label = ''Full Flight'', pw_window = (0, duration r)\<rparr>]
           | None \<Rightarrow>
               [\<lparr>pw_id = ''full'', pw_label = ''Full Flight'', pw_window = (0, duration r)\<rparr>]))"

section \<open>\<^verbatim>\<open>SignalStrip\<close>: risk lookup, merge and window filter\<close>

text \<open>
  \<^verbatim>\<open>Number(x.toFixed(1))\<close>: the multiple of one tenth nearest to \<open>x\<close>; of two equally near
  the one larger in magnitude, since \<^verbatim>\<open>toFixed\<close> sets the sign aside first.
\<close>

definition toFixed1 :: "number \<Rightarrow> number" where
  "toFixed1 x =
     (if x < 0 then - (of_int \<lfloor>- x * 10 + 1 / 2\<rfloor> / 10)
      else of_int \<lfloor>x * 10 + 1 / 2\<rfloor> / 10)"

text \<open>\<^verbatim>\<open>riskLookup\<close>: a \<^verbatim>\<open>Map\<close> filled by \<^verbatim>\<open>risk.forEach\<close>, a later point replacing an
  earlier one with the same rounded time.\<close>

definition riskLookup :: "risk_point list \<Rightarrow> (number \<rightharpoonup> number)" where
  "riskLookup risk =
     fold (\<lambda>point m. m(toFixed1 (rp_time_seconds point) \<mapsto> rp_hf_index point)) risk Map.empty"

text \<open>A merged point is the matrix point spread into a new object that also has
  \<^verbatim>\<open>hf_index\<close>, always a number; a signal of that name in the point is overwritten.\<close>

record merged_point = signal_matrix_point +
  hf_index :: number

definition merge_point :: "(number \<rightharpoonup> number) \<Rightarrow> signal_matrix_point \<Rightarrow> merged_point" where
  "merge_point lookup point =
     \<lparr>smp_time_seconds = smp_time_seconds point,
      smp_signals = filter (\<lambda>kv. fst kv \<noteq> ''hf_index'') (smp_signals point),
      hf_index = (case lookup (toFixed1 (smp_time_seconds point)) of
                    Some h \<Rightarrow> h
                  | None \<Rightarrow> 0)\<rparr>"

definition merged :: "signal_matrix_point list \<Rightarrow> risk_point list \<Rightarrow> merged_point list" where
  "merged data risk = map (merge_point (riskLookup risk)) data"

text \<open>\<^verbatim>\<open>filtered\<close>: the merged points whose time lies in the window, both ends included.\<close>

definition filtered :: "merged_point list \<Rightarrow> number \<times> number \<Rightarrow> merged_point list" where
  "filtered ms window =
     filter (\<lambda>point. smp_time_seconds point \<ge> fst window \<and> smp_time_seconds point \<le> snd window)
       ms"

definition SignalStrip_filtered ::
  "signal_matrix_point list \<Rightarrow> risk_point list \<Rightarrow> number \<times> number \<Rightarrow> merged_point list" where
  "SignalStrip_filtered data risk window = filtered (merged data risk) window"

section \<open>The backend core, from the specification\<close>

text \<open>
  The pipeline that detects events and scopes a Summary to a window runs in the backend
  service, whose code is not among the sources. What the specification says of it is
  written down here, in its own words, for the claims that are about it.
\<close>

text \<open>Modelled from the spec: the Canonical Sample of section 3, the backend's
  time-indexed record whose canonical signal keys are each optional.\<close>

record canonical_sample =
  cn_time_seconds :: number
  cn_altitude_ft :: "number option"
  cn_airspeed_kt :: "number option"
  cn_vertical_speed_fpm :: "number option"
  cn_bank_deg :: "number option"
  cn_pitch_deg :: "number option"
  cn_g_normal :: "number option"
  cn_aoa_deg :: "number option"
  cn_heading_deg :: "number option"

text \<open>Modelled from the spec: the max values of the backend's Summary (section 3: max
  altitude, max airspeed, max bank, max positive G), each absent when no sample has the
  signal.\<close>

record summary_maxima =
  mx_max_altitude_ft :: "number option"
  mx_max_airspeed_kt :: "number option"
  mx_max_bank_angle_deg :: "number option"
  mx_max_positive_g :: "number option"

text \<open>Modelled from the spec: the backend's maximum of the values present, none for an
  empty list.\<close>

fun max_of :: "number list \<Rightarrow> number option" where
  "max_of [] = None"
| "max_of (x # xs) = (case max_of xs of None \<Rightarrow> Some x | Some m \<Rightarrow> Some (max x m))"

text \<open>Modelled from the spec: the backend's window test of section 4.4, a time falling
  inside \<open>[start, end]\<close>, both bounds included (section 8).\<close>

definition in_window :: "number \<times> number \<Rightarrow> number \<Rightarrow> bool" where
  "in_window window t = (fst window \<le> t \<and> t \<le> snd window)"

text \<open>Modelled from the spec: the backend's windowed extraction of section 4.4, a pure
  filter of the samples and of the RuleEvents whose time falls inside the window.\<close>

definition window_samples :: "number \<times> number \<Rightarrow> canonical_sample list \<Rightarrow> canonical_sample list" where
  "window_samples window samples = filter (\<lambda>s. in_window window (cn_time_seconds s)) samples"

text \<open>Modelled from the spec: the backend's filter of RuleEvents to a window
  (sections 4.4 and 8).\<close>

definition window_rule_events :: "number \<times> number \<Rightarrow> rule_event list \<Rightarrow> rule_event list" where
  "window_rule_events window evs = filter (\<lambda>e. in_window window (re_time_seconds e)) evs"

text \<open>Modelled from the spec: the backend's aggregate of the max values over a sample
  sequence; the bank maximum is over the bank magnitude.\<close>

definition summarize_maxima :: "canonical_sample list \<Rightarrow> summary_maxima" where
  "summarize_maxima samples =
     \<lparr>mx_max_altitude_ft = max_of (List.map_filter cn_altitude_ft samples),
      mx_max_airspeed_kt = max_of (List.map_filter cn_airspeed_kt samples),
      mx_max_bank_angle_deg = max_of (map abs (List.map_filter cn_bank_deg samples)),
      mx_max_positive_g = max_of (List.map_filter cn_g_normal samples)\<rparr>"

text \<open>Modelled from the spec: the backend's reduced Summary scoped to a window
  (section 4.4), the aggregate over the samples inside the window.\<close>

definition window_summary :: "number \<times> number \<Rightarrow> canonical_sample list \<Rightarrow> summary_maxima" where
  "window_summary window samples = summarize_maxima (window_samples window samples)"
















text \<open>Modelled from the spec: a canonical sample that carries only a time, to which
  signals are added (backend).\<close>

definition bare_sample :: "number \<Rightarrow> canonical_sample" where
  "bare_sample t =
     \<lparr>cn_time_seconds = t, cn_altitude_ft = None, cn_airspeed_kt = None,
      cn_vertical_speed_fpm = None, cn_bank_deg = None, cn_pitch_deg = None,
      cn_g_normal = None, cn_aoa_deg = None, cn_heading_deg = None\<rparr>"

section \<open>\<^verbatim>\<open>useFlightAnalysis\<close>: the analysis run\<close>

datatype status = Idle | Uploading | Processing | Ready | Error

text \<open>The four state cells of the hook.\<close>

record analysis_state =
  fa_status :: status
  fa_progress :: number
  fa_error :: "string option"
  fa_result :: "analysis_response option"

text \<open>What a rejected promise carries: an \<^verbatim>\<open>Error\<close> object with its message, or any
  other value.\<close>

datatype thrown = ErrorObject string | OtherValue

text \<open>How \<^verbatim>\<open>analyzeFlight\<close> ends: the promise resolves with the response body or
  rejects.\<close>

datatype upload_outcome = Resolves analysis_response | Rejects thrown

datatype setter =
    SetError "string option"
  | SetProgress number
  | SetStatus status
  | SetResult "analysis_response option"

fun apply_setter :: "setter \<Rightarrow> analysis_state \<Rightarrow> analysis_state" where
  "apply_setter (SetError e) s = s\<lparr>fa_error := e\<rparr>"
| "apply_setter (SetProgress p) s = s\<lparr>fa_progress := p\<rparr>"
| "apply_setter (SetStatus st) s = s\<lparr>fa_status := st\<rparr>"
| "apply_setter (SetResult r) s = s\<lparr>fa_result := r\<rparr>"

text \<open>\<^verbatim>\<open>err instanceof Error ? err.message : 'Analysis failed. Please try again.'\<close>\<close>

fun failure_message :: "thrown \<Rightarrow> string" where
  "failure_message (ErrorObject message) = message"
| "failure_message OtherValue = ''Analysis failed. Please try again.''"

text \<open>
  The setter calls of one \<^verbatim>\<open>analyze(file)\<close>, in order. \<open>percents\<close> are the values the
  upload-progress callback receives before the promise settles. The 400 ms pause
  between \<^verbatim>\<open>setStatus('processing')\<close> and \<^verbatim>\<open>setResult(response)\<close> never rejects and
  sets nothing.
\<close>

definition analyze_calls :: "number list \<Rightarrow> upload_outcome \<Rightarrow> setter list" where
  "analyze_calls percents outcome =
     [SetError None, SetProgress 0, SetStatus Uploading]
     @ map SetProgress percents
     @ (case outcome of
          Resolves response \<Rightarrow> [SetStatus Processing, SetResult (Some response), SetStatus Ready]
        | Rejects err \<Rightarrow> [SetError (Some (failure_message err)), SetStatus Error])"

text \<open>Every state a caller can observe while the calls run: the one before, and the
  one after each setter.\<close>

fun states_through :: "setter list \<Rightarrow> analysis_state \<Rightarrow> analysis_state list" where
  "states_through [] s = [s]"
| "states_through (c # cs) s = s # states_through cs (apply_setter c s)"

definition analyze_states :: "number list \<Rightarrow> upload_outcome \<Rightarrow> analysis_state \<Rightarrow> analysis_state list" where
  "analyze_states percents outcome s = states_through (analyze_calls percents outcome) s"

definition analyze :: "number list \<Rightarrow> upload_outcome \<Rightarrow> analysis_state \<Rightarrow> analysis_state" where
  "analyze percents outcome s = fold apply_setter (analyze_calls percents outcome) s"

section \<open>\<^verbatim>\<open>useAiConsole\<close>: follow-up commands\<close>

record ai_log_entry =
  le_id :: string
  le_command :: string
  le_response :: string
  le_timestamp :: number

record console_state =
  cs_logs :: "ai_log_entry list"
  cs_pending :: bool

text \<open>The values \<^verbatim>\<open>Date.now()\<close> and \<^verbatim>\<open>Math.random()\<close> return during one command.\<close>

record console_clock =
  ck_id_now :: number
  ck_random :: number
  ck_log_now :: number

text \<open>How \<^verbatim>\<open>runAiAgent\<close> ends: with the response's \<^verbatim>\<open>log\<close>, or rejected.\<close>

datatype agent_outcome = AgentResolves string | AgentRejects thrown

text \<open>White space as \<^verbatim>\<open>String.prototype.trim\<close> sees it, among the code units a
  \<^typ>\<open>char\<close> can hold: tab, line feed, vertical tab, form feed, carriage return, space
  and the no-break space.\<close>

definition is_js_space :: "char \<Rightarrow> bool" where
  "is_js_space c =
     (let n = (of_char c :: nat)
      in n = 9 \<or> n = 10 \<or> n = 11 \<or> n = 12 \<or> n = 13 \<or> n = 32 \<or> n = 160)"

definition js_trim :: "string \<Rightarrow> string" where
  "js_trim s = rev (dropWhile is_js_space (rev (dropWhile is_js_space s)))"

text \<open>\<^verbatim>\<open>(error as Error).message\<close> inside the template literal: a thrown value that is no
  \<^verbatim>\<open>Error\<close> has no message and prints as \<^verbatim>\<open>undefined\<close>.\<close>

fun thrown_message :: "thrown \<Rightarrow> string" where
  "thrown_message (ErrorObject message) = message"
| "thrown_message OtherValue = ''undefined''"

text \<open>
  \<^verbatim>\<open>runCommand\<close>, closed over the hook's arguments \<open>summary\<close> and \<open>ruleEvents\<close>. The result
  is the list of requests handed to \<^verbatim>\<open>runAiAgent\<close> and the state once the command has
  finished.
\<close>

definition runCommand ::
  "flight_summary option \<Rightarrow> rule_event list \<Rightarrow> console_clock \<Rightarrow> agent_outcome \<Rightarrow>
   string \<Rightarrow> (number \<times> number) option \<Rightarrow> console_state \<Rightarrow>
   ai_agent_request list \<times> console_state" where
  "runCommand summary ruleEvents clock outcome command window st =
     (case summary of
        None \<Rightarrow> ([], st)
      | Some the_summary \<Rightarrow>
          if js_trim command = [] then ([], st)
          else
            let ident = number_to_string (ck_id_now clock) @ ''-''
                        @ number_to_string (ck_random clock);
                request = \<lparr>rq_command = command,
                           rq_window_start = map_option fst window,
                           rq_window_end = map_option snd window,
                           rq_summary = the_summary,
                           rq_rule_events = ruleEvents,
                           rq_context_notes = None\<rparr>;
                response = (case outcome of
                              AgentResolves log_text \<Rightarrow> log_text
                            | AgentRejects err \<Rightarrow> ''ERROR: '' @ thrown_message err);
                entry = \<lparr>le_id = ident, le_command = command, le_response = response,
                         le_timestamp = ck_log_now clock\<rparr>
            in ([request], st\<lparr>cs_pending := False, cs_logs := cs_logs st @ [entry]\<rparr>))"

text \<open>\<^verbatim>\<open>App\<close> builds the console from the stored result:
  \<^verbatim>\<open>useAiConsole(result?.summary ?? null, result?.rule_events ?? [])\<close>, and hands
  \<^verbatim>\<open>ai.runCommand\<close> to the console form.\<close>

definition App_runCommand ::
  "analysis_response option \<Rightarrow> console_clock \<Rightarrow> agent_outcome \<Rightarrow>
   string \<Rightarrow> (number \<times> number) option \<Rightarrow> console_state \<Rightarrow>
   ai_agent_request list \<times> console_state" where
  "App_runCommand result =
     runCommand (map_option ar_summary result)
                (case result of None \<Rightarrow> [] | Some r \<Rightarrow> ar_rule_events r)"

section \<open>Example values\<close>

text \<open>A small analysis result, used where a statement is evaluated on a concrete input:
  a two-minute flight with three grid points, one risk point and no preset window.\<close>

definition example_summary :: flight_summary where
  "example_summary =
     \<lparr>fs_total_duration_seconds = 120, fs_total_duration_minutes = 2,
      fs_max_altitude_ft = Some 1500, fs_min_altitude_ft = Some 0,
      fs_avg_altitude_ft = Some 700, fs_max_airspeed_kt = Some 140,
      fs_avg_airspeed_kt = Some 95, fs_max_climb_rate_fpm = None,
      fs_max_descent_rate_fpm = None, fs_max_bank_angle_deg = Some 55,
      fs_max_positive_g = Some 2, fs_max_negative_g = None,
      fs_fuel_consumed_gal = None\<rparr>"

definition example_rule_events :: "rule_event list" where
  "example_rule_events =
     [\<lparr>re_rule = ''LOW_ALTITUDE_BANK'', re_severity = Warning, re_time_seconds = 30,
       re_description = ''bank at low altitude'', re_values = [(''bank_deg'', Inl 55)]\<rparr>,
      \<lparr>re_rule = ''HF_RISK_HIGH'', re_severity = Critical, re_time_seconds = 90,
       re_description = ''risk index high'', re_values = [(''hf_index'', Inl 80)]\<rparr>]"

definition example_response :: analysis_response where
  "example_response =
     \<lparr>ar_success = True, ar_filename = ''log.csv'', ar_metadata = None,
      ar_summary = example_summary, ar_events = [],
      ar_events_count = \<lparr>ec_total = 0, ec_critical = 0, ec_warning = 0, ec_info = 0\<rparr>,
      ar_references = [], ar_debrief = ''ok'',
      ar_series_data = [\<lparr>sp_time_seconds = 0, sp_alt_msl_ft = None,
                          sp_airspeed_indicated_kt = Some 60, sp_vertical_speed_fpm = None,
                          sp_roll_deg = None, sp_pitch_deg = None\<rparr>,
                        \<lparr>sp_time_seconds = 100, sp_alt_msl_ft = Some 1500,
                          sp_airspeed_indicated_kt = Some 120, sp_vertical_speed_fpm = None,
                          sp_roll_deg = None, sp_pitch_deg = None\<rparr>],
      ar_signal_meta = [],
      ar_signal_matrix = [\<lparr>smp_time_seconds = 0, smp_signals = [(''alt_msl_ft'', 0)]\<rparr>,
                          \<lparr>smp_time_seconds = 60, smp_signals = [(''alt_msl_ft'', 1500)]\<rparr>,
                          \<lparr>smp_time_seconds = 120, smp_signals = []\<rparr>],
      ar_risk_trace = [\<lparr>rp_time_seconds = 60, rp_hf_index = 40\<rparr>],
      ar_rule_events = example_rule_events,
      ar_presets = Some []\<rparr>"

text \<open>A state left by an earlier run that failed at 40 percent of its upload, and the
  clock readings of one console command.\<close>

definition failed_before :: analysis_state where
  "failed_before =
     \<lparr>fa_status = Error, fa_progress = 40, fa_error = Some ''Network Error'',
      fa_result = None\<rparr>"

definition example_clock :: console_clock where
  "example_clock =
     \<lparr>ck_id_now = 1700000000000, ck_random = 1 / 4, ck_log_now = 1700000000900\<rparr>"

text \<open>Four canonical samples with an altitude each; the highest lies outside the
  window from 60 to 120 seconds.\<close>

definition example_samples :: "canonical_sample list" where
  "example_samples =
     [(bare_sample 0)\<lparr>cn_altitude_ft := Some 100\<rparr>,
      (bare_sample 60)\<lparr>cn_altitude_ft := Some 1500\<rparr>,
      (bare_sample 90)\<lparr>cn_altitude_ft := Some 900\<rparr>,
      (bare_sample 150)\<lparr>cn_altitude_ft := Some 3000\<rparr>]"




section \<open>Facts about the number model\<close>

lemma floor_of_nat_div_60: "\<lfloor>(of_nat n :: rat) / 60\<rfloor> = int (n div 60)"
proof -
  have "\<lfloor>(of_nat n :: rat) / of_nat 60\<rfloor> = int (n div 60)"
    by (simp only: floor_divide_of_nat_eq)
  then show ?thesis by simp
qed

lemma js_rem_of_nat_60: "js_rem (of_nat n) 60 = of_nat (n mod 60)"
proof -
  have "(of_nat n :: rat) = of_nat (60 * (n div 60) + n mod 60)"
    by simp
  also have "\<dots> = 60 * of_nat (n div 60) + of_nat (n mod 60)"
    by (simp only: of_nat_add of_nat_mult of_nat_numeral)
  finally have "(of_nat n :: rat) - 60 * of_nat (n div 60) = of_nat (n mod 60)"
    by simp
  then show ?thesis
    by (simp add: js_rem_def js_trunc_def floor_of_nat_div_60)
qed

lemma int_to_string_of_nat: "int_to_string (int k) = digits_of k"
  by (simp add: int_to_string_def)

lemma number_to_string_of_nat: "number_to_string (of_nat k) = digits_of k"
  by (simp add: number_to_string_def int_to_string_def)

lemma length_digits_of_small: "k < 10 \<Longrightarrow> length (digits_of k) = 1"
  by simp

lemma length_digits_of_large: "10 \<le> k \<Longrightarrow> 2 \<le> length (digits_of k)"
proof -
  assume "10 \<le> k"
  then have "digits_of k = digits_of (k div 10) @ [digit_char (k mod 10)]"
    by simp
  moreover have "1 \<le> length (digits_of (k div 10))"
    by (subst digits_of.simps) simp
  ultimately show ?thesis by simp
qed

lemma padStart_digits:
  "padStart 2 CHR ''0'' (digits_of k) =
     (if k < 10 then CHR ''0'' # digits_of k else digits_of k)"
proof (cases "k < 10")
  case True
  then show ?thesis by (simp add: padStart_def)
next
  case False
  then have "2 \<le> length (digits_of k)"
    by (intro length_digits_of_large) simp
  then have "2 - length (digits_of k) = 0" by simp
  with False show ?thesis by (simp only: padStart_def replicate_0 append_Nil if_False)
qed

lemma formatTime_of_nat:
  "int_to_string (Math_floor (of_nat n / 60)) @ '':'' @
     padStart 2 CHR ''0'' (int_to_string (Math_floor (js_rem (of_nat n) 60)))
   = spec_time_string n"
  by (simp only: Math_floor_def floor_of_nat_div_60 js_rem_of_nat_60 floor_of_nat
      int_to_string_of_nat padStart_digits spec_time_string_def)

lemma formatter_of_nat:
  "int_to_string (Math_floor (of_nat n / 60)) @ '':'' @
     padStart 2 CHR ''0'' (number_to_string (js_rem (of_nat n) 60))
   = spec_time_string n"
  by (simp only: Math_floor_def floor_of_nat_div_60 js_rem_of_nat_60
      int_to_string_of_nat number_to_string_of_nat padStart_digits spec_time_string_def)

lemma formatTime_at_90_5: "EventsTimeline_formatTime (181 / 2) = ''1:30''"
  by code_simp

lemma formatTime_strip_at_90_5: "SignalStrip_formatTime (181 / 2) = ''1:30''"
  by code_simp

lemma formatter_at_90_5: "FlightChart_formatter (181 / 2) = ''1:30.5''"
  by code_simp

section \<open>The time formatters agree on whole seconds\<close>

text \<open>
  C10. On every non-negative integer \<open>t\<close> the three time formatters (EventsTimeline's
  formatTime, SignalStrip's formatTime, FlightChart's formatter) return the same string,
  \<open>floor (t / 60)\<close>, a colon and \<open>t mod 60\<close> zero-padded to two digits; on a non-integer
  \<open>t\<close> FlightChart's formatter can differ from the other two, since it does not floor the
  remainder: at 90.5 seconds it prints 1:30.5 where the other two print 1:30.
\<close>

theorem time_formatters_agree_on_integers:
  "EventsTimeline_formatTime (of_nat t) = spec_time_string t
   \<and> SignalStrip_formatTime (of_nat t) = spec_time_string t
   \<and> FlightChart_formatter (of_nat t) = spec_time_string t
   \<and> (\<exists>x. 0 \<le> x \<and> of_int \<lfloor>x\<rfloor> \<noteq> x
          \<and> FlightChart_formatter x \<noteq> EventsTimeline_formatTime x
          \<and> FlightChart_formatter x \<noteq> SignalStrip_formatTime x)"
proof -
  have a: "EventsTimeline_formatTime (of_nat t) = spec_time_string t"
    unfolding EventsTimeline_formatTime_def Let_def by (rule formatTime_of_nat)
  have b: "SignalStrip_formatTime (of_nat t) = spec_time_string t"
    unfolding SignalStrip_formatTime_def Let_def by (rule formatTime_of_nat)
  have c: "FlightChart_formatter (of_nat t) = spec_time_string t"
    unfolding FlightChart_formatter_def Let_def by (rule formatter_of_nat)
  have d1: "(0::rat) \<le> 181 / 2 \<and> of_int \<lfloor>181 / 2 :: rat\<rfloor> \<noteq> (181 / 2 :: rat)"
    by code_simp
  have d2: "FlightChart_formatter (181 / 2) \<noteq> EventsTimeline_formatTime (181 / 2)"
    by (simp only: formatter_at_90_5 formatTime_at_90_5) simp
  have d3: "FlightChart_formatter (181 / 2) \<noteq> SignalStrip_formatTime (181 / 2)"
    by (simp only: formatter_at_90_5 formatTime_strip_at_90_5) simp
  from d1 d2 d3 have d: "\<exists>x::rat. 0 \<le> x \<and> of_int \<lfloor>x\<rfloor> \<noteq> x
          \<and> FlightChart_formatter x \<noteq> EventsTimeline_formatTime x
          \<and> FlightChart_formatter x \<noteq> SignalStrip_formatTime x"
    by blast
  from a b c d show ?thesis by blast
qed

theorem time_formatters_agree_witness:
  "EventsTimeline_formatTime 125 = ''2:05''
   \<and> SignalStrip_formatTime 125 = ''2:05''
   \<and> FlightChart_formatter 125 = ''2:05''"
proof -
  have s: "spec_time_string 125 = ''2:05''" by code_simp
  have n: "(of_nat 125 :: rat) = 125" by simp
  from time_formatters_agree_on_integers [of 125] s n show ?thesis by simp
qed

section \<open>Severity tables, chart lines and preset windows\<close>

lemma at_last_eq: "at_last xs = (if xs = [] then None else Some (last xs))"
  by (induction xs) auto

text \<open>
  C7. The severity of every Event and of every RuleEvent is one of the three levels
  info, warning, critical, and both severity-keyed tables (the icon of the rule panel,
  the colour of the timeline) have an entry for each of the three keys and for no other
  key, so a lookup by severity always finds a value.
\<close>

theorem severity_lookup_total:
  "fe_severity e \<in> {Info, Warning, Critical}
   \<and> re_severity r \<in> {Info, Warning, Critical}
   \<and> (\<exists>icon. map_of severityIcon (severity_key (re_severity r)) = Some icon)
   \<and> (\<exists>hue. map_of severityToHue (severity_key (fe_severity e)) = Some hue)
   \<and> (\<exists>icon. map_of severityIcon (severity_key s) = Some icon)
   \<and> (\<exists>hue. map_of severityToHue (severity_key s) = Some hue)
   \<and> set (map fst severityIcon) = range severity_key
   \<and> set (map fst severityToHue) = range severity_key"
proof -
  have all3: "x = Info \<or> x = Warning \<or> x = Critical" for x :: severity
    by (cases x) simp_all
  have icon: "\<exists>icon. map_of severityIcon (severity_key x) = Some icon" for x
    by (cases x) (simp_all add: severityIcon_def)
  have hue: "\<exists>hue. map_of severityToHue (severity_key x) = Some hue" for x
    by (cases x) (simp_all add: severityToHue_def)
  have univ: "(UNIV :: severity set) = {Info, Warning, Critical}"
    using all3 by auto
  have rng: "range severity_key = {''info'', ''warning'', ''critical''}"
    by (simp only: univ) simp
  have k1: "set (map fst severityIcon) = range severity_key"
    by (simp only: rng) (auto simp add: severityIcon_def)
  have k2: "set (map fst severityToHue) = range severity_key"
    by (simp only: rng) (auto simp add: severityToHue_def)
  from all3 [of "fe_severity e"] all3 [of "re_severity r"] icon hue k1 k2
  show ?thesis by simp
qed

text \<open>
  C9. FlightChart renders nothing on an empty series. On a non-empty series it draws
  the altitude line exactly when the first point defines \<^verbatim>\<open>alt_msl_ft\<close> and the airspeed
  line exactly when the first point defines \<^verbatim>\<open>airspeed_indicated_kt\<close>; the later points
  (\<open>rest\<close>) have no say, so a signal missing only at the first sample is not drawn.
\<close>

theorem FlightChart_lines_follow_first_point:
  "FlightChart [] events = None
   \<and> (\<exists>els. FlightChart (d0 # rest) events = Some els
        \<and> (Line ''left'' ''alt_msl_ft'' \<in> set els \<longleftrightarrow> sp_alt_msl_ft d0 \<noteq> None)
        \<and> (Line ''right'' ''airspeed_indicated_kt'' \<in> set els
             \<longleftrightarrow> sp_airspeed_indicated_kt d0 \<noteq> None))"
  by (auto simp add: Let_def)

theorem FlightChart_lines_witness:
  "FlightChart (ar_series_data example_response) [] =
     Some [CartesianGrid, XAxis ''time_seconds'', YAxis ''left'', YAxis ''right'',
           Tooltip, Legend, Line ''right'' ''airspeed_indicated_kt'']"
proof -
  obtain els where
    e: "FlightChart (ar_series_data example_response) [] = Some els"
    using FlightChart_lines_follow_first_point
      [of "[]" "hd (ar_series_data example_response)" "tl (ar_series_data example_response)"]
    by (auto simp add: example_response_def)
  show ?thesis by (simp add: example_response_def)
qed

text \<open>
  C6. For every analysis result the list of preset windows used for navigation is not
  empty: one or more windows supplied by the backend are used as they are; otherwise the
  list is the single full-flight window from 0 to the duration, the duration being the
  last signal-matrix timestamp, else the last series-data timestamp, else 0.
\<close>

theorem presets_nonempty_full_flight:
  "presets (Some r) \<noteq> []
   \<and> (case ar_presets r of
         Some (p # ps) \<Rightarrow> presets (Some r) = p # ps
       | _ \<Rightarrow> presets (Some r) =
               [\<lparr>pw_id = ''full'', pw_label = ''Full Flight'', pw_window = (0, duration r)\<rparr>])
   \<and> duration r =
        (if ar_signal_matrix r \<noteq> [] then smp_time_seconds (last (ar_signal_matrix r))
         else if ar_series_data r \<noteq> [] then sp_time_seconds (last (ar_series_data r))
         else 0)"
  by (auto simp add: presets_def duration_def at_last_eq split: option.splits list.splits)

theorem presets_full_flight_witness:
  "presets (Some example_response) =
     [\<lparr>pw_id = ''full'', pw_label = ''Full Flight'', pw_window = (0, 120)\<rparr>]"
  using presets_nonempty_full_flight [of example_response]
  by (simp add: example_response_def)

section \<open>The analysis run is all or nothing\<close>

lemma fold_SetProgress:
  "fold apply_setter (map SetProgress ps) s = s\<lparr>fa_progress := last (fa_progress s # ps)\<rparr>"
  by (induction ps arbitrary: s) simp_all

lemma states_through_start: "s \<in> set (states_through cs s)"
  by (cases cs) simp_all

lemma set_states_through_append:
  "set (states_through (cs @ ds) s) =
     set (states_through cs s) \<union> set (states_through ds (fold apply_setter cs s))"
proof (induction cs arbitrary: s)
  case Nil
  show ?case using states_through_start [of s ds] by auto
next
  case (Cons c cs)
  then show ?case by auto
qed

lemma states_SetProgress_result:
  "fa_result ` set (states_through (map SetProgress ps) s) = {fa_result s}"
  by (induction ps arbitrary: s) auto

lemma results_of_states:
  "fa_result ` set (analyze_states percents outcome s) =
     (case outcome of Resolves response \<Rightarrow> {fa_result s, Some response}
                    | Rejects err \<Rightarrow> {fa_result s})"
proof -
  let ?s3 = "s\<lparr>fa_error := None, fa_progress := 0, fa_status := Uploading\<rparr>"
  let ?tail = "(case outcome of
          Resolves response \<Rightarrow> [SetStatus Processing, SetResult (Some response), SetStatus Ready]
        | Rejects err \<Rightarrow> [SetError (Some (failure_message err)), SetStatus Error])"
  have r3: "fa_result ?s3 = fa_result s" by simp
  have mid: "fa_result ` set (states_through (map SetProgress percents) ?s3) = {fa_result s}"
    by (simp only: states_SetProgress_result r3)
  let ?s4 = "fold apply_setter (map SetProgress percents) ?s3"
  have r4: "fa_result ?s4 = fa_result s"
    by (simp add: fold_SetProgress)
  have tl: "fa_result ` set (states_through ?tail ?s4) =
     (case outcome of Resolves response \<Rightarrow> {fa_result s, Some response}
                    | Rejects err \<Rightarrow> {fa_result s})"
    using r4 by (cases outcome) auto
  have "set (analyze_states percents outcome s) =
      {s, s\<lparr>fa_error := None\<rparr>, s\<lparr>fa_error := None, fa_progress := 0\<rparr>}
      \<union> set (states_through (map SetProgress percents) ?s3)
      \<union> set (states_through ?tail ?s4)"
    by (simp add: analyze_states_def analyze_calls_def set_states_through_append)
  then have "fa_result ` set (analyze_states percents outcome s) =
      {fa_result s} \<union> fa_result ` set (states_through (map SetProgress percents) ?s3)
      \<union> fa_result ` set (states_through ?tail ?s4)"
    by (simp add: image_Un)
  with mid tl show ?thesis by (cases outcome) auto
qed

text \<open>
  C5 (as amended). A run of \<^verbatim>\<open>analyze\<close> that completes stores the complete response,
  with status ready and no error. A run that fails leaves the stored result exactly as
  it was; what it changes is the error message, the status and the upload progress
  (reset to 0, then set by the progress callbacks). In both cases every state on the way
  holds either the result stored before the call or the complete response, never a part
  of one.
\<close>

theorem analyze_all_or_nothing:
  "analyze percents (Resolves response) s =
     \<lparr>fa_status = Ready, fa_progress = last (0 # percents), fa_error = None,
      fa_result = Some response\<rparr>
   \<and> analyze percents (Rejects err) s =
     s\<lparr>fa_error := Some (failure_message err), fa_status := Error,
       fa_progress := last (0 # percents)\<rparr>
   \<and> fa_result (analyze percents (Rejects err) s) = fa_result s
   \<and> fa_result ` set (analyze_states percents (Rejects err) s) = {fa_result s}
   \<and> fa_result ` set (analyze_states percents (Resolves response) s)
       = {fa_result s, Some response}"
proof -
  have a: "analyze percents (Resolves response) s =
     \<lparr>fa_status = Ready, fa_progress = last (0 # percents), fa_error = None,
      fa_result = Some response\<rparr>"
    by (simp add: analyze_def analyze_calls_def fold_SetProgress)
  have b: "analyze percents (Rejects err) s =
     s\<lparr>fa_error := Some (failure_message err), fa_status := Error,
       fa_progress := last (0 # percents)\<rparr>"
    by (simp add: analyze_def analyze_calls_def fold_SetProgress)
  have c: "fa_result (analyze percents (Rejects err) s) = fa_result s"
    by (simp only: b) simp
  have d: "fa_result ` set (analyze_states percents (Rejects err) s) = {fa_result s}"
    by (simp add: results_of_states)
  have e: "fa_result ` set (analyze_states percents (Resolves response) s)
       = {fa_result s, Some response}"
    by (simp add: results_of_states)
  from a b c d e show ?thesis by blast
qed

theorem analyze_witness:
  "analyze [50, 100] (Resolves example_response) failed_before =
     \<lparr>fa_status = Ready, fa_progress = 100, fa_error = None,
      fa_result = Some example_response\<rparr>
   \<and> analyze [50] (Rejects OtherValue) failed_before =
     \<lparr>fa_status = Error, fa_progress = 50,
      fa_error = Some ''Analysis failed. Please try again.'', fa_result = None\<rparr>"
  using analyze_all_or_nothing [of "[50, 100]" example_response failed_before]
        analyze_all_or_nothing [of "[50]" example_response failed_before OtherValue]
  by (simp add: failed_before_def)

text \<open>
  C5 as stated says that on failure only the error message and the status change. After
  an earlier run that stopped at 40 percent, a failing run also puts the progress back
  to 0.
\<close>

theorem analyze_failure_resets_progress:
  "analyze [] (Rejects (ErrorObject ''timeout'')) failed_before
     \<noteq> failed_before\<lparr>fa_error := Some ''timeout'', fa_status := Error\<rparr>
   \<and> fa_progress (analyze [] (Rejects (ErrorObject ''timeout'')) failed_before) = 0
   \<and> fa_progress failed_before = 40"
  by (simp add: analyze_def analyze_calls_def failed_before_def)

section \<open>Follow-up commands\<close>

text \<open>
  C8. A follow-up command with a Summary at hand and a command text that is not blank
  sends exactly one request; it carries the command as typed, the window bounds, the
  full flight Summary and the whole RuleEvents list of the stored result, whatever the
  window. With no Summary, or a blank command, nothing is sent and the console state
  (log and pending flag) is unchanged.
\<close>

theorem runCommand_sends_one_full_request:
  "(js_trim command \<noteq> [] \<longrightarrow>
      fst (runCommand (Some summary) ruleEvents clock outcome command window st) =
        [\<lparr>rq_command = command,
          rq_window_start = map_option fst window, rq_window_end = map_option snd window,
          rq_summary = summary, rq_rule_events = ruleEvents, rq_context_notes = None\<rparr>]
      \<and> fst (App_runCommand (Some r) clock outcome command window st) =
        [\<lparr>rq_command = command,
          rq_window_start = map_option fst window, rq_window_end = map_option snd window,
          rq_summary = ar_summary r, rq_rule_events = ar_rule_events r,
          rq_context_notes = None\<rparr>])
   \<and> (js_trim command = [] \<longrightarrow>
        runCommand (Some summary) ruleEvents clock outcome command window st = ([], st)
        \<and> App_runCommand result clock outcome command window st = ([], st))
   \<and> runCommand None ruleEvents clock outcome command window st = ([], st)
   \<and> App_runCommand None clock outcome command window st = ([], st)"
  by (cases result) (simp_all add: runCommand_def App_runCommand_def Let_def)

theorem runCommand_witness:
  "js_trim ''Why did HF spike?'' \<noteq> []
   \<and> fst (App_runCommand (Some example_response) example_clock (AgentResolves ''ok'')
          ''Why did HF spike?'' (Some (60, 120)) \<lparr>cs_logs = [], cs_pending = False\<rparr>) =
        [\<lparr>rq_command = ''Why did HF spike?'',
          rq_window_start = Some 60, rq_window_end = Some 120,
          rq_summary = example_summary, rq_rule_events = example_rule_events,
          rq_context_notes = None\<rparr>]
   \<and> js_trim ''   '' = []
   \<and> App_runCommand (Some example_response) example_clock (AgentResolves ''ok'')
          ''   '' (Some (60, 120)) \<lparr>cs_logs = [], cs_pending = False\<rparr>
       = ([], \<lparr>cs_logs = [], cs_pending = False\<rparr>)"
proof -
  have t1: "js_trim ''Why did HF spike?'' \<noteq> []"
    by (simp add: js_trim_def is_js_space_def)
  have t2: "js_trim ''   '' = []"
    by (simp add: js_trim_def is_js_space_def)
  have s: "ar_summary example_response = example_summary"
    "ar_rule_events example_response = example_rule_events"
    by (simp_all add: example_response_def)
  from t1 t2 s
    runCommand_sends_one_full_request [of "''Why did HF spike?''" example_summary "[]"
      example_clock "AgentResolves ''ok''" "Some (60, 120)"
      "\<lparr>cs_logs = [], cs_pending = False\<rparr>" example_response "Some example_response"]
    runCommand_sends_one_full_request [of "''   ''" example_summary "[]"
      example_clock "AgentResolves ''ok''" "Some (60, 120)"
      "\<lparr>cs_logs = [], cs_pending = False\<rparr>" example_response "Some example_response"]
  show ?thesis by simp
qed

section \<open>Window extraction and the risk merge\<close>

lemma find_snoc:
  "find P (xs @ [y]) = (case find P xs of Some x \<Rightarrow> Some x | None \<Rightarrow> if P y then Some y else None)"
  by (induction xs) simp_all

lemma riskLookup_fold:
  "fold (\<lambda>point m. m(toFixed1 (rp_time_seconds point) \<mapsto> rp_hf_index point)) risk m0 k =
     (case find (\<lambda>p. toFixed1 (rp_time_seconds p) = k) (rev risk) of
        Some p \<Rightarrow> Some (rp_hf_index p)
      | None \<Rightarrow> m0 k)"
  by (induction risk arbitrary: m0) (auto simp add: find_snoc split: option.splits)

lemma riskLookup_find:
  "riskLookup risk k =
     map_option rp_hf_index (find (\<lambda>p. toFixed1 (rp_time_seconds p) = k) (rev risk))"
  by (simp add: riskLookup_def riskLookup_fold split: option.splits)

lemma riskLookup_None:
  "riskLookup risk k = None \<longleftrightarrow> k \<notin> (\<lambda>p. toFixed1 (rp_time_seconds p)) ` set risk"
  by (auto simp add: riskLookup_find find_None_iff)

lemma max_of_Max: "max_of xs = (if xs = [] then None else Some (Max (set xs)))"
proof (induction xs)
  case Nil
  show ?case by simp
next
  case (Cons x xs)
  show ?case
  proof (cases "xs = []")
    case True
    then show ?thesis by simp
  next
    case False
    with Cons have "max_of xs = Some (Max (set xs))" by simp
    moreover from False have "Max (set (x # xs)) = max x (Max (set xs))"
      by simp
    ultimately show ?thesis by simp
  qed
qed

lemma set_map_filter:
  "set (List.map_filter f xs) = {v. \<exists>x \<in> set xs. f x = Some v}"
  by (induction xs) (auto simp add: List.map_filter_simps split: option.splits)

lemma filtered_set:
  "set (filtered ms (start, stop)) =
     {p \<in> set ms. start \<le> smp_time_seconds p \<and> smp_time_seconds p \<le> stop}"
  by (auto simp add: filtered_def)

lemma filtered_count:
  "count (mset (filtered ms (start, stop))) p =
     (if start \<le> smp_time_seconds p \<and> smp_time_seconds p \<le> stop then count (mset ms) p else 0)"
  by (induction ms) (auto simp add: filtered_def)

lemma filtered_subseq: "subseq (filtered ms window) ms"
  by (simp add: filtered_def)

lemma merged_times: "map smp_time_seconds (merged data risk) = map smp_time_seconds data"
  by (simp add: merged_def merge_point_def)

lemma SignalStrip_filtered_times:
  "map smp_time_seconds (SignalStrip_filtered data risk (start, stop)) =
     filter (\<lambda>t. start \<le> t \<and> t \<le> stop) (map smp_time_seconds data)"
  by (simp add: SignalStrip_filtered_def filtered_def merged_def filter_map comp_def merge_point_def)

lemma merged_hf_index:
  "map hf_index (merged data risk) =
     map (\<lambda>point. case riskLookup risk (toFixed1 (smp_time_seconds point)) of
                     Some h \<Rightarrow> h | None \<Rightarrow> 0) data"
  by (simp add: merged_def merge_point_def)

lemma merge_point_signals:
  "map_of (smp_signals (merge_point lookup point)) key =
     (if key = ''hf_index'' then None else map_of (smp_signals point) key)"
proof -
  have "map_of (filter (\<lambda>kv. fst kv \<noteq> ''hf_index'') kvs) key =
     (if key = ''hf_index'' then None else map_of kvs key)" for kvs :: "(string \<times> number) list"
    by (induction kvs) auto
  then show ?thesis by (simp add: merge_point_def)
qed

lemma window_rule_events_set:
  "set (window_rule_events (start, stop) evs) =
     {e \<in> set evs. start \<le> re_time_seconds e \<and> re_time_seconds e \<le> stop}"
  by (auto simp add: window_rule_events_def in_window_def)

lemma window_max_field:
  "max_of (List.map_filter f (window_samples (start, stop) samples)) =
     (let vs = {v. \<exists>s \<in> set samples. start \<le> cn_time_seconds s \<and> cn_time_seconds s \<le> stop
                   \<and> f s = Some v}
      in if vs = {} then None else Some (Max vs))"
proof -
  let ?xs = "List.map_filter f (window_samples (start, stop) samples)"
  have s: "set ?xs = {v. \<exists>s \<in> set samples. start \<le> cn_time_seconds s \<and> cn_time_seconds s \<le> stop
                   \<and> f s = Some v}"
    by (auto simp add: set_map_filter window_samples_def in_window_def)
  have "max_of ?xs = (if set ?xs = {} then None else Some (Max (set ?xs)))"
    by (simp add: max_of_Max)
  then show ?thesis by (simp only: s Let_def)
qed

lemma map_filter_map_option:
  "map g (List.map_filter f xs) = List.map_filter (\<lambda>x. map_option g (f x)) xs"
  by (induction xs) (auto simp add: List.map_filter_simps split: option.splits)

text \<open>
  C1. For every window from \<open>start\<close> to \<open>stop\<close>, the windowed extraction returns exactly
  the elements whose \<^verbatim>\<open>time_seconds\<close> lies between the bounds, both included: the same
  elements, as often, in the same order, and no others (SignalStrip's \<^verbatim>\<open>filtered\<close>, and
  the RuleEvent filter of the specification). The max values of the window-scoped Summary
  are the maxima over the samples inside the window only.
\<close>

theorem windowed_extraction_exact:
  "set (filtered ms (start, stop)) =
     {p \<in> set ms. start \<le> smp_time_seconds p \<and> smp_time_seconds p \<le> stop}
   \<and> count (mset (filtered ms (start, stop))) p =
       (if start \<le> smp_time_seconds p \<and> smp_time_seconds p \<le> stop
        then count (mset ms) p else 0)
   \<and> subseq (filtered ms (start, stop)) ms
   \<and> map smp_time_seconds (SignalStrip_filtered data risk (start, stop)) =
       filter (\<lambda>t. start \<le> t \<and> t \<le> stop) (map smp_time_seconds data)
   \<and> set (window_rule_events (start, stop) evs) =
       {e \<in> set evs. start \<le> re_time_seconds e \<and> re_time_seconds e \<le> stop}
   \<and> mx_max_altitude_ft (window_summary (start, stop) samples) =
       (let vs = {v. \<exists>s \<in> set samples. start \<le> cn_time_seconds s \<and> cn_time_seconds s \<le> stop
                     \<and> cn_altitude_ft s = Some v}
        in if vs = {} then None else Some (Max vs))
   \<and> mx_max_airspeed_kt (window_summary (start, stop) samples) =
       (let vs = {v. \<exists>s \<in> set samples. start \<le> cn_time_seconds s \<and> cn_time_seconds s \<le> stop
                     \<and> cn_airspeed_kt s = Some v}
        in if vs = {} then None else Some (Max vs))
   \<and> mx_max_positive_g (window_summary (start, stop) samples) =
       (let vs = {v. \<exists>s \<in> set samples. start \<le> cn_time_seconds s \<and> cn_time_seconds s \<le> stop
                     \<and> cn_g_normal s = Some v}
        in if vs = {} then None else Some (Max vs))
   \<and> mx_max_bank_angle_deg (window_summary (start, stop) samples) =
       (let vs = {v. \<exists>s \<in> set samples. start \<le> cn_time_seconds s \<and> cn_time_seconds s \<le> stop
                     \<and> map_option abs (cn_bank_deg s) = Some v}
        in if vs = {} then None else Some (Max vs))"
proof -
  have alt: "mx_max_altitude_ft (window_summary (start, stop) samples) =
       max_of (List.map_filter cn_altitude_ft (window_samples (start, stop) samples))"
    by (simp add: window_summary_def summarize_maxima_def)
  have spd: "mx_max_airspeed_kt (window_summary (start, stop) samples) =
       max_of (List.map_filter cn_airspeed_kt (window_samples (start, stop) samples))"
    by (simp add: window_summary_def summarize_maxima_def)
  have g: "mx_max_positive_g (window_summary (start, stop) samples) =
       max_of (List.map_filter cn_g_normal (window_samples (start, stop) samples))"
    by (simp add: window_summary_def summarize_maxima_def)
  have bank: "mx_max_bank_angle_deg (window_summary (start, stop) samples) =
       max_of (List.map_filter (\<lambda>s. map_option abs (cn_bank_deg s))
                 (window_samples (start, stop) samples))"
    by (simp add: window_summary_def summarize_maxima_def map_filter_map_option)
  show ?thesis
    unfolding alt spd g bank
    by (intro conjI filtered_set filtered_count filtered_subseq SignalStrip_filtered_times
        window_rule_events_set window_max_field)
qed

theorem windowed_extraction_witness:
  "map smp_time_seconds
     (SignalStrip_filtered (ar_signal_matrix example_response)
        (ar_risk_trace example_response) (60, 120)) = [60, 120]
   \<and> map re_time_seconds (window_rule_events (60, 120) example_rule_events) = [90]
   \<and> mx_max_altitude_ft (window_summary (60, 120) example_samples) = Some 1500
   \<and> mx_max_altitude_ft (summarize_maxima example_samples) = Some 3000"
proof -
  note w = windowed_extraction_exact
    [of _ 60 120 _ "ar_signal_matrix example_response" "ar_risk_trace example_response"]
  have "map smp_time_seconds
     (SignalStrip_filtered (ar_signal_matrix example_response)
        (ar_risk_trace example_response) (60, 120)) =
     filter (\<lambda>t. 60 \<le> t \<and> t \<le> 120) (map smp_time_seconds (ar_signal_matrix example_response))"
    by (rule w [THEN conjunct2, THEN conjunct2, THEN conjunct2, THEN conjunct1])
  then have a: "map smp_time_seconds
     (SignalStrip_filtered (ar_signal_matrix example_response)
        (ar_risk_trace example_response) (60, 120)) = [60, 120]"
    by (simp add: example_response_def)
  have b: "map re_time_seconds (window_rule_events (60, 120) example_rule_events) = [90]"
    by (simp add: window_rule_events_def in_window_def example_rule_events_def)
  have c: "mx_max_altitude_ft (window_summary (60, 120) example_samples) = Some 1500"
    by (simp add: window_summary_def window_samples_def in_window_def summarize_maxima_def
        example_samples_def bare_sample_def List.map_filter_simps)
  have d: "mx_max_altitude_ft (summarize_maxima example_samples) = Some 3000"
    by (simp add: summarize_maxima_def example_samples_def bare_sample_def
        List.map_filter_simps)
  from a b c d show ?thesis by blast
qed

text \<open>
  C4 (as amended). SignalStrip gives every signal-matrix point an \<^verbatim>\<open>hf_index\<close>: the
  index of the last RiskPoint whose time rounds to the same tenth of a second, and the
  number 0 when there is no such RiskPoint. The times are kept, and every other signal
  of the point is passed on as it is, an absent signal staying absent.
\<close>

theorem merged_missing_risk_is_zero:
  "length (merged data risk) = length data
   \<and> map smp_time_seconds (merged data risk) = map smp_time_seconds data
   \<and> map hf_index (merged data risk) =
       map (\<lambda>point. case riskLookup risk (toFixed1 (smp_time_seconds point)) of
                       Some h \<Rightarrow> h | None \<Rightarrow> 0) data
   \<and> (riskLookup risk k = None \<longleftrightarrow> k \<notin> (\<lambda>p. toFixed1 (rp_time_seconds p)) ` set risk)
   \<and> (toFixed1 (smp_time_seconds point) \<notin> (\<lambda>p. toFixed1 (rp_time_seconds p)) ` set risk
        \<longrightarrow> hf_index (merge_point (riskLookup risk) point) = 0)
   \<and> map_of (smp_signals (merge_point (riskLookup risk) point)) key =
       (if key = ''hf_index'' then None else map_of (smp_signals point) key)"
proof -
  have a: "length (merged data risk) = length data" by (simp add: merged_def)
  have b: "toFixed1 (smp_time_seconds point) \<notin> (\<lambda>p. toFixed1 (rp_time_seconds p)) ` set risk
        \<longrightarrow> hf_index (merge_point (riskLookup risk) point) = 0"
  proof
    assume "toFixed1 (smp_time_seconds point) \<notin> (\<lambda>p. toFixed1 (rp_time_seconds p)) ` set risk"
    then have "riskLookup risk (toFixed1 (smp_time_seconds point)) = None"
      by (simp add: riskLookup_None)
    then show "hf_index (merge_point (riskLookup risk) point) = 0"
      by (simp add: merge_point_def)
  qed
  from a b merged_times merged_hf_index riskLookup_None merge_point_signals
  show ?thesis by blast
qed

theorem merged_missing_risk_witness:
  "map hf_index (merged (ar_signal_matrix example_response) (ar_risk_trace example_response))
     = [0, 40, 0]
   \<and> riskLookup (ar_risk_trace example_response) 120 = None
   \<and> riskLookup (ar_risk_trace example_response) 60 = Some 40"
proof -
  have k: "toFixed1 0 = 0" "toFixed1 60 = 60" "toFixed1 120 = 120"
    by code_simp+
  have r: "riskLookup (ar_risk_trace example_response) = [60 \<mapsto> 40]"
    by (simp add: riskLookup_def example_response_def k)
  from merged_missing_risk_is_zero
    [of "ar_signal_matrix example_response" "ar_risk_trace example_response"]
  show ?thesis
    by (simp add: r) (simp add: example_response_def k)
qed

text \<open>
  C4 as stated says that a sample with no RiskPoint is treated as absent and never given
  zero. With an empty risk trace the point at 5 seconds gets \<^verbatim>\<open>hf_index\<close> 0, and the
  merged list is the same as with a RiskPoint of index 0 at that time.
\<close>

theorem missing_risk_point_reads_as_zero:
  "riskLookup [] (toFixed1 5) = None
   \<and> map hf_index (merged [\<lparr>smp_time_seconds = 5, smp_signals = []\<rparr>] []) = [0]
   \<and> merged [\<lparr>smp_time_seconds = 5, smp_signals = []\<rparr>] []
       = merged [\<lparr>smp_time_seconds = 5, smp_signals = []\<rparr>]
                [\<lparr>rp_time_seconds = 5, rp_hf_index = 0\<rparr>]"
  by (simp add: riskLookup_def merged_def merge_point_def)

section \<open>Detectors of the specification\<close>



























end
